theory Spec2Isabelle
  imports Complex_Main "HOL-Library.AList" "HOL-Library.Multiset"
begin

section \<open>Data model of \<^verbatim>\<open>data_analyser.py\<close>\<close>

text \<open>
  The program reads two tables with pandas, builds a \<^verbatim>\<open>networkx.DiGraph\<close> from them
  and writes a text report. A table cell is a dynamically typed value: a missing value
  (\<^verbatim>\<open>NaN\<close>, also \<^verbatim>\<open>NaT\<close> in a datetime column), a string, a boolean, or, once
  \<^verbatim>\<open>pd.to_datetime\<close> has run, a timestamp (year, month, day).
\<close>

datatype cell = NaN | Str string | Flag bool | Timestamp int int int

text \<open>
  One row of \<^verbatim>\<open>Dark_Events.csv\<close> and one row of \<^verbatim>\<open>Dark_Edges.csv\<close>, with the columns
  the program reads. The identifier type is left open; every event row has an identifier
  (\<^verbatim>\<open>ID\<close> is the key of the table). \<^verbatim>\<open>Source\<close> and \<^verbatim>\<open>Target\<close> are \<open>None\<close> where
  \<^verbatim>\<open>pd.notna\<close> is false.
\<close>

record 'a event =
  ID :: 'a
  Description :: cell
  Date :: cell
  Important_Trigger :: cell
  Death :: cell
  Characters :: cell
  World :: cell

record 'a edge =
  Source :: "'a option"
  Target :: "'a option"
  Type :: cell
  Edge_Description :: cell

section \<open>The directed graph of networkx\<close>

text \<open>
  A Python \<^verbatim>\<open>dict\<close> keeps its keys in insertion order and assigning to a key that is
  present keeps the key's place: an association list with distinct keys.
  \<^verbatim>\<open>d.update(other)\<close> assigns the items of \<^verbatim>\<open>other\<close> one after the other.
\<close>

type_synonym attrs = "(string \<times> cell) list"

definition dict_update :: "('k \<times> 'v) list \<Rightarrow> ('k \<times> 'v) list \<Rightarrow> ('k \<times> 'v) list" where
  "dict_update d other = fold (\<lambda>(k, v). AList.update k v) other d"

text \<open>
  \<^verbatim>\<open>nx.DiGraph\<close> holds \<^verbatim>\<open>_node\<close> (node to attribute dict) and \<^verbatim>\<open>_succ\<close> (node to
  dict of successors, each with the edge's attribute dict); both always have the same keys,
  added together, so the model is one ordered dict from a node to the pair of its attribute
  dict and its successor dict. \<^verbatim>\<open>_pred\<close> mirrors \<^verbatim>\<open>_succ\<close> and is derived where it is read.

  \<^verbatim>\<open>add_node(n, **attr)\<close> creates the node with \<^verbatim>\<open>attr\<close> when it is new and otherwise
  updates the attribute dict it has. \<^verbatim>\<open>add_edge(u, v, **attr)\<close> first creates \<^verbatim>\<open>u\<close> and
  \<^verbatim>\<open>v\<close> with empty attributes where they are missing, then updates the attribute dict of
  the edge \<^verbatim>\<open>u -> v\<close>, creating it when new: a \<^verbatim>\<open>DiGraph\<close> has at most one edge per
  ordered pair.
\<close>

type_synonym 'a DiGraph = "('a \<times> attrs \<times> ('a \<times> attrs) list) list"

definition DiGraph :: "'a DiGraph" where
  "DiGraph = []"

definition add_node :: "'a DiGraph \<Rightarrow> 'a \<Rightarrow> attrs \<Rightarrow> 'a DiGraph" where
  "add_node G n attr =
     AList.map_default n (dict_update [] attr, []) (\<lambda>(a, s). (dict_update a attr, s)) G"

definition add_edge :: "'a DiGraph \<Rightarrow> 'a \<Rightarrow> 'a \<Rightarrow> attrs \<Rightarrow> 'a DiGraph" where
  "add_edge G u v attr =
     (let G1 = AList.map_default u ([], []) (\<lambda>e. e) G;
          G2 = AList.map_default v ([], []) (\<lambda>e. e) G1
      in AList.map_entry u
           (\<lambda>(a, s). (a, AList.map_default v (dict_update [] attr) (\<lambda>d. dict_update d attr) s))
           G2)"

definition nodes :: "'a DiGraph \<Rightarrow> 'a list" where
  "nodes G = map fst G"

definition number_of_nodes :: "'a DiGraph \<Rightarrow> nat" where
  "number_of_nodes G = length G"

definition node_attrs :: "'a DiGraph \<Rightarrow> 'a \<Rightarrow> attrs option" where
  "node_attrs G n = map_option fst (map_of G n)"

definition succ :: "'a DiGraph \<Rightarrow> 'a \<Rightarrow> ('a \<times> attrs) list" where
  "succ G n = (case map_of G n of None \<Rightarrow> [] | Some (a, s) \<Rightarrow> s)"

definition edges :: "'a DiGraph \<Rightarrow> ('a \<times> 'a) list" where
  "edges G = concat (map (\<lambda>(u, a, s). map (\<lambda>(v, d). (u, v)) s) G)"

definition edge_attrs :: "'a DiGraph \<Rightarrow> 'a \<Rightarrow> 'a \<Rightarrow> attrs option" where
  "edge_attrs G u v = map_of (succ G u) v"

definition out_degree :: "'a DiGraph \<Rightarrow> 'a \<Rightarrow> nat" where
  "out_degree G n = length (succ G n)"

definition number_of_edges :: "'a DiGraph \<Rightarrow> nat" where
  "number_of_edges G = length (edges G)"

section \<open>\<^verbatim>\<open>create_graph\<close>\<close>

definition event_attrs :: "'a event \<Rightarrow> attrs" where
  "event_attrs ev =
     [(''description'', Description ev), (''date'', Date ev),
      (''important_trigger'', Important_Trigger ev), (''death'', Death ev),
      (''characters'', Characters ev), (''world'', World ev)]"

definition edge_row_attrs :: "'a edge \<Rightarrow> attrs" where
  "edge_row_attrs e = [(''edge_type'', Type e), (''description'', Edge_Description e)]"

definition add_event :: "'a event \<Rightarrow> 'a DiGraph \<Rightarrow> 'a DiGraph" where
  "add_event ev G = add_node G (ID ev) (event_attrs ev)"

text \<open>
  The guard of the edge loop, \<^verbatim>\<open>pd.notna(edge['Source']) and pd.notna(edge['Target'])\<close>:
  the ordered pair of a row that passes it.
\<close>

definition endpoints :: "'a edge \<Rightarrow> ('a \<times> 'a) option" where
  "endpoints e =
     (case Source e of
        None \<Rightarrow> None
      | Some u \<Rightarrow> (case Target e of None \<Rightarrow> None | Some v \<Rightarrow> Some (u, v)))"

definition add_edge_row :: "'a edge \<Rightarrow> 'a DiGraph \<Rightarrow> 'a DiGraph" where
  "add_edge_row e G =
     (case endpoints e of
        Some (u, v) \<Rightarrow> add_edge G u v (edge_row_attrs e)
      | None \<Rightarrow> G)"

definition create_graph :: "'a event list \<Rightarrow> 'a edge list \<Rightarrow> 'a DiGraph" where
  "create_graph events_df edges_df = fold add_edge_row edges_df (fold add_event events_df DiGraph)"

text \<open>The ordered pairs handed to \<^verbatim>\<open>add_edge\<close>, in row order.\<close>

definition added_pairs :: "'a edge list \<Rightarrow> ('a \<times> 'a) list" where
  "added_pairs edges_df = List.map_filter endpoints edges_df"

text \<open>Their end points, the nodes \<^verbatim>\<open>add_edge\<close> creates where they are missing.\<close>

definition pair_ends :: "('a \<times> 'a) list \<Rightarrow> 'a list" where
  "pair_ends ps = concat (map (\<lambda>(u, v). [u, v]) ps)"

text \<open>The distinct elements of a list in the order of their first occurrence (dict key order).\<close>

definition first_seen :: "'a list \<Rightarrow> 'a list" where
  "first_seen xs = rev (remdups (rev xs))"

section \<open>The report and the distribution analyzers\<close>

text \<open>
  The report file is the list of the lines written to it. A line is one
  \<^verbatim>\<open>report_file.write\<close> of the source with the values of its f-string; the rendering of a
  value as text (the three decimals of a centrality, the arrow between the nodes of a path)
  is not modelled. \<open>'a\<close> is the type of identifiers, \<open>'c\<close> the type of centrality values.
\<close>

datatype ('a, 'c) line =
    Title
  | Rule
  | Worlds_Header
  | World_Count cell nat
  | Temporal_Header
  | Year_Count int nat
  | Time_Span int
  | Characters_Header
  | Character_Count string nat
  | Important_Header
  | Trigger_Count nat
  | Death_Count nat
  | Structure_Header
  | Nodes_Count nat
  | Edges_Count nat
  | Central_Header
  | Central_Event 'a 'c
  | Dead_Ends_Count nat
  | Loops_Count nat
  | Loops_Header
  | Loop nat "'a list"
  | Chain_Length nat
  | Chain_Path "'a list"
  | Components_Count nat
  | Largest_Component nat

text \<open>The exceptions the analysis can raise.\<close>

datatype error = ValueError | TypeError | AttributeError

text \<open>
  \<^verbatim>\<open>sorted(xs, key=f, reverse=True)\<close>: CPython reverses the list, sorts it stably in
  ascending order of the key and reverses the result, so that elements with equal keys keep
  their order. \<^verbatim>\<open>Counter.most_common(n)\<close> is \<^verbatim>\<open>sorted(items, key=count, reverse=True)[:n]\<close>.
\<close>

definition sorted_reverse :: "('a \<Rightarrow> 'k::linorder) \<Rightarrow> 'a list \<Rightarrow> 'a list" where
  "sorted_reverse key xs = rev (sort_key key (rev xs))"

text \<open>
  \<^verbatim>\<open>Counter(xs)\<close>, and the counting step of \<^verbatim>\<open>Series.value_counts()\<close>: each distinct
  value with its number of occurrences, in the order of first occurrence.
  \<^verbatim>\<open>value_counts\<close> drops the missing values first (\<open>dropna\<close>, its default) and orders by
  descending count; the order it gives to values of equal count is the library's, and no
  statement below depends on it.
\<close>

definition Counter :: "'a list \<Rightarrow> ('a \<times> nat) list" where
  "Counter xs = map (\<lambda>x. (x, count_list xs x)) (first_seen xs)"

definition most_common :: "nat \<Rightarrow> ('a \<times> nat) list \<Rightarrow> ('a \<times> nat) list" where
  "most_common n counts = take n (sorted_reverse snd counts)"

definition dropna :: "cell list \<Rightarrow> cell list" where
  "dropna col = filter (\<lambda>c. c \<noteq> NaN) col"

definition value_counts :: "'a list \<Rightarrow> ('a \<times> nat) list" where
  "value_counts xs = sorted_reverse snd (Counter xs)"

subsection \<open>\<^verbatim>\<open>analyze_worlds\<close>\<close>

definition analyze_worlds :: "'a event list \<Rightarrow> ('a, 'c) line list" where
  "analyze_worlds events_df =
     Worlds_Header #
     map (\<lambda>(world, count). World_Count world count) (value_counts (dropna (map World events_df)))"

subsection \<open>\<^verbatim>\<open>analyze_temporal_patterns\<close>\<close>

text \<open>
  \<^verbatim>\<open>pd.to_datetime(col, format='%d-%m-%Y')\<close> with the default \<^verbatim>\<open>errors='raise'\<close>. The
  parser of one date string is a parameter \<open>parse\<close>: it gives year, month and day, or
  \<open>None\<close> for a string the format does not match. A missing value becomes \<^verbatim>\<open>NaT\<close>, a
  timestamp stays, and the first value that does not convert raises; nothing is returned
  then.
\<close>

type_synonym timestamp = "int \<times> int \<times> int"

fun to_datetime1 :: "(string \<Rightarrow> timestamp option) \<Rightarrow> cell \<Rightarrow> error + timestamp option" where
  "to_datetime1 parse NaN = Inr None"
| "to_datetime1 parse (Str s) =
     (case parse s of None \<Rightarrow> Inl ValueError | Some t \<Rightarrow> Inr (Some t))"
| "to_datetime1 parse (Flag b) = Inl TypeError"
| "to_datetime1 parse (Timestamp y m d) = Inr (Some (y, m, d))"

fun to_datetime :: "(string \<Rightarrow> timestamp option) \<Rightarrow> cell list \<Rightarrow> error + timestamp option list" where
  "to_datetime parse [] = Inr []"
| "to_datetime parse (c # col) =
     (case to_datetime1 parse c of
        Inl e \<Rightarrow> Inl e
      | Inr t \<Rightarrow> (case to_datetime parse col of Inl e \<Rightarrow> Inl e | Inr ts \<Rightarrow> Inr (t # ts)))"

text \<open>A value of the converted column as a cell, and its \<^verbatim>\<open>.dt.year\<close>.\<close>

fun datetime_cell :: "timestamp option \<Rightarrow> cell" where
  "datetime_cell None = NaN"
| "datetime_cell (Some (y, m, d)) = Timestamp y m d"

fun year :: "timestamp option \<Rightarrow> int option" where
  "year None = None"
| "year (Some (y, m, d)) = Some y"

text \<open>
  The function assigns the converted column to \<^verbatim>\<open>events_df['Date']\<close>, the caller's table,
  so it returns the table next to the lines it writes. The conversion comes first: when it
  raises, the table is as it was and nothing has been written.
\<close>

definition set_dates :: "'a event list \<Rightarrow> timestamp option list \<Rightarrow> 'a event list" where
  "set_dates events_df col = map (\<lambda>(ev, t). ev\<lparr>Date := datetime_cell t\<rparr>) (zip events_df col)"

definition year_counts :: "timestamp option list \<Rightarrow> (int \<times> nat) list" where
  "year_counts col = sort_key fst (value_counts (List.map_filter year col))"

definition analyze_temporal_patterns ::
  "(string \<Rightarrow> timestamp option) \<Rightarrow> 'a event list \<Rightarrow> error + ('a event list \<times> ('a, 'c) line list)" where
  "analyze_temporal_patterns parse events_df =
     (case to_datetime parse (map Date events_df) of
        Inl e \<Rightarrow> Inl e
      | Inr col \<Rightarrow>
          (let years = year_counts col
           in Inr (set_dates events_df col,
                   Temporal_Header #
                   map (\<lambda>(y, count). Year_Count y count) years @
                   (if length years > 1
                    then [Time_Span (Max (set (map fst years)) - Min (set (map fst years)))]
                    else []))))"

subsection \<open>\<^verbatim>\<open>analyze_character_involvement\<close>\<close>

text \<open>\<^verbatim>\<open>str.split(sep)\<close> for a one-character separator, and \<^verbatim>\<open>str.strip()\<close>.\<close>

fun split :: "char \<Rightarrow> string \<Rightarrow> string list" where
  "split sep [] = [[]]"
| "split sep (c # cs) =
     (if c = sep then [] # split sep cs
      else (case split sep cs of [] \<Rightarrow> [[c]] | w # ws \<Rightarrow> (c # w) # ws))"

definition isspace :: "char \<Rightarrow> bool" where
  "isspace c = (of_char c \<in> {9, 10, 11, 12, 13, 28, 29, 30, 31, 32 :: nat})"

definition strip :: "string \<Rightarrow> string" where
  "strip s = rev (dropWhile isspace (rev (dropWhile isspace s)))"

text \<open>
  The loop over \<^verbatim>\<open>events_df['Characters'].dropna()\<close>: a string gives its stripped parts,
  any other value has no \<^verbatim>\<open>split\<close>.
\<close>

fun characters_of :: "cell \<Rightarrow> error + string list" where
  "characters_of (Str chars) = Inr (map strip (split CHR '','' chars))"
| "characters_of c = Inl AttributeError"

fun all_characters :: "cell list \<Rightarrow> error + string list" where
  "all_characters [] = Inr []"
| "all_characters (c # col) =
     (case characters_of c of
        Inl e \<Rightarrow> Inl e
      | Inr cs \<Rightarrow> (case all_characters col of Inl e \<Rightarrow> Inl e | Inr rest \<Rightarrow> Inr (cs @ rest)))"

definition analyze_character_involvement :: "'a event list \<Rightarrow> error + ('a, 'c) line list" where
  "analyze_character_involvement events_df =
     (case all_characters (dropna (map Characters events_df)) of
        Inl e \<Rightarrow> Inl e
      | Inr cs \<Rightarrow>
          Inr (Characters_Header #
               map (\<lambda>(char, count). Character_Count char count) (most_common 10 (Counter cs))))"

subsection \<open>\<^verbatim>\<open>analyze_important_events\<close>\<close>

text \<open>\<^verbatim>\<open>value_counts().get(True, 0)\<close>: the number of cells that are \<^verbatim>\<open>True\<close>.\<close>

definition analyze_important_events :: "'a event list \<Rightarrow> ('a, 'c) line list" where
  "analyze_important_events events_df =
     [Important_Header,
      Trigger_Count (count_list (map Important_Trigger events_df) (Flag True)),
      Death_Count (count_list (map Death events_df) (Flag True))]"

section \<open>\<^verbatim>\<open>analyze_graph_structure\<close>\<close>

text \<open>
  The algorithms of networkx whose results the function only passes on are parameters:
  betweenness centrality (a dict of floating-point values, keyed by node), the search for
  the cycles of a graph without self-loops, the longest path of an acyclic graph and the
  strongly connected components. What the claims depend on is modelled: the test for
  acyclicity, and the first step of \<^verbatim>\<open>simple_cycles\<close>, which yields \<^verbatim>\<open>[v]\<close> for every
  node \<^verbatim>\<open>v\<close> with a self-loop before it searches the graph of the remaining edges.
  \<^verbatim>\<open>in_degree_centrality\<close> and \<^verbatim>\<open>out_degree_centrality\<close> are computed by the source and
  never read.
\<close>

record ('a, 'c) networkx =
  betweenness_centrality :: "'a DiGraph \<Rightarrow> ('a \<times> 'c) list"
  directed_cycle_search :: "'a DiGraph \<Rightarrow> 'a list list"
  dag_longest_path :: "'a DiGraph \<Rightarrow> 'a list"
  strongly_connected_components :: "'a DiGraph \<Rightarrow> 'a list list"

text \<open>
  \<^verbatim>\<open>nx.is_directed_acyclic_graph\<close>: the graph has no directed cycle; a self-loop is one.
\<close>

definition is_directed_acyclic_graph :: "'a DiGraph \<Rightarrow> bool" where
  "is_directed_acyclic_graph G = acyclic (set (edges G))"

definition self_loops :: "'a DiGraph \<Rightarrow> 'a list" where
  "self_loops G = filter (\<lambda>v. v \<in> fst ` set (succ G v)) (nodes G)"

definition without_self_loops :: "'a DiGraph \<Rightarrow> 'a DiGraph" where
  "without_self_loops G =
     fold (\<lambda>(u, v) H. add_edge H u v []) (filter (\<lambda>(u, v). v \<noteq> u) (edges G)) DiGraph"

definition simple_cycles :: "('a, 'c) networkx \<Rightarrow> 'a DiGraph \<Rightarrow> 'a list list" where
  "simple_cycles nx G =
     map (\<lambda>v. [v]) (self_loops G) @ directed_cycle_search nx (without_self_loops G)"

text \<open>Lines 90 to 93: the five first items of the betweenness dict, sorted by value, descending.\<close>

definition top_central :: "('a \<times> 'c::linorder) list \<Rightarrow> ('a \<times> 'c) list" where
  "top_central betweenness = take 5 (sorted_reverse snd betweenness)"

definition dead_ends :: "'a DiGraph \<Rightarrow> 'a list" where
  "dead_ends G = filter (\<lambda>n. out_degree G n = 0) (nodes G)"

text \<open>Line 108, and the two lines written when the path is not empty.\<close>

definition longest_path :: "('a, 'c) networkx \<Rightarrow> 'a DiGraph \<Rightarrow> 'a list option" where
  "longest_path nx G =
     (if is_directed_acyclic_graph G then Some (dag_longest_path nx G) else None)"

fun longest_chain_lines :: "'a list option \<Rightarrow> ('a, 'c) line list" where
  "longest_chain_lines None = []"
| "longest_chain_lines (Some path) =
     (if path \<noteq> [] then [Chain_Length (length path), Chain_Path path] else [])"

text \<open>The two lines of the longest causal chain, lines 110 and 111 of the source.\<close>

fun is_chain_line :: "('a, 'c) line \<Rightarrow> bool" where
  "is_chain_line (Chain_Length n) = True"
| "is_chain_line (Chain_Path p) = True"
| "is_chain_line l = False"

text \<open>The nodes and values listed under the most central events, in the order of the report.\<close>

fun central_event :: "('a, 'c) line \<Rightarrow> ('a \<times> 'c) option" where
  "central_event (Central_Event node_id centrality) = Some (node_id, centrality)"
| "central_event l = None"

definition central_events :: "('a, 'c) line list \<Rightarrow> ('a \<times> 'c) list" where
  "central_events report = List.map_filter central_event report"

text \<open>
  The function returns the lines it has written and the exception that ended it, if any:
  \<^verbatim>\<open>max(components, key=len)\<close> raises on an empty list, after the line with the number of
  components is written.
\<close>

definition analyze_graph_structure ::
  "('a, 'c::linorder) networkx \<Rightarrow> 'a DiGraph \<Rightarrow> ('a, 'c) line list \<times> error option" where
  "analyze_graph_structure nx G =
     (let cycles = simple_cycles nx G;
          components = strongly_connected_components nx G;
          written =
            [Structure_Header, Nodes_Count (number_of_nodes G), Edges_Count (number_of_edges G),
             Central_Header] @
            map (\<lambda>(node_id, centrality). Central_Event node_id centrality)
              (top_central (betweenness_centrality nx G)) @
            [Dead_Ends_Count (length (dead_ends G)), Loops_Count (length cycles)] @
            (if cycles \<noteq> []
             then Loops_Header # map (\<lambda>(i, cycle). Loop i cycle) (zip [1 ..< 4] (take 3 cycles))
             else []) @
            longest_chain_lines (longest_path nx G) @
            [Components_Count (length components)]
      in if components = [] then (written, Some ValueError)
         else (written @ [Largest_Component (Max (set (map length components)))], None))"

section \<open>\<^verbatim>\<open>main\<close>\<close>

text \<open>
  The two tables are the inputs (\<^verbatim>\<open>load_data\<close> reads them from the files). The result is
  what the report file holds when the run ends, and the exception that ended it, if any.
\<close>

definition main ::
  "(string \<Rightarrow> timestamp option) \<Rightarrow> ('a, 'c::linorder) networkx \<Rightarrow> 'a event list \<Rightarrow> 'a edge list
     \<Rightarrow> ('a, 'c) line list \<times> error option" where
  "main parse nx events_df edges_df =
     (let G = create_graph events_df edges_df;
          report = [Title, Rule] @ analyze_worlds events_df
      in case analyze_temporal_patterns parse events_df of
           Inl e \<Rightarrow> (report, Some e)
         | Inr (events_df1, temporal) \<Rightarrow>
             (case analyze_character_involvement events_df1 of
                Inl e \<Rightarrow> (report @ temporal, Some e)
              | Inr characters \<Rightarrow>
                  (let (structure, raised) = analyze_graph_structure nx G
                   in (report @ temporal @ characters @ analyze_important_events events_df1 @
                       structure, raised))))"

section \<open>Inputs of the examples\<close>

text \<open>Rows of the example inputs: only the columns that matter to an example vary.\<close>

definition event_row :: "int \<Rightarrow> string \<Rightarrow> int event" where
  "event_row i d =
     \<lparr>ID = i, Description = Str d, Date = Str ''21-06-1986'', Important_Trigger = Flag False,
      Death = Flag False, Characters = Str ''Jonas, Martha'', World = Str ''Jonas''\<rparr>"

definition edge_row :: "int option \<Rightarrow> int option \<Rightarrow> string \<Rightarrow> int edge" where
  "edge_row u v t = \<lparr>Source = u, Target = v, Type = Str t, Edge_Description = NaN\<rparr>"

text \<open>
  The parser of the examples, for the format \<^verbatim>\<open>%d-%m-%Y\<close>: a day and a month of one or two
  digits (the day also as a space and a digit), a year of four digits, hyphens between
  them, and a day that the month has. The bounds of a pandas timestamp are not modelled.
\<close>

definition digit_of :: "char \<Rightarrow> nat option" where
  "digit_of c = (if 48 \<le> (of_char c :: nat) \<and> (of_char c :: nat) \<le> 57
                 then Some (of_char c - 48) else None)"

fun number_of :: "nat \<Rightarrow> string \<Rightarrow> nat option" where
  "number_of acc [] = Some acc"
| "number_of acc (c # cs) =
     (case digit_of c of None \<Rightarrow> None | Some k \<Rightarrow> number_of (10 * acc + k) cs)"

definition day_field :: "string \<Rightarrow> nat option" where
  "day_field s =
     (if length s = 2 \<and> hd s = CHR '' '' then number_of 0 (tl s)
      else if length s = 1 \<or> length s = 2 then number_of 0 s else None)"

definition month_field :: "string \<Rightarrow> nat option" where
  "month_field s = (if length s = 1 \<or> length s = 2 then number_of 0 s else None)"

definition year_field :: "string \<Rightarrow> nat option" where
  "year_field s = (if length s = 4 then number_of 0 s else None)"

definition days_in_month :: "nat \<Rightarrow> nat \<Rightarrow> nat" where
  "days_in_month y m =
     (if m = 2 then (if y mod 4 = 0 \<and> (y mod 100 \<noteq> 0 \<or> y mod 400 = 0) then 29 else 28)
      else if m \<in> {4, 6, 9, 11} then 30 else 31)"

definition strptime :: "string \<Rightarrow> timestamp option" where
  "strptime s =
     (case split CHR ''-'' s of
        [ds, ms, ys] \<Rightarrow>
          (case (day_field ds, month_field ms, year_field ys) of
             (Some d, Some m, Some y) \<Rightarrow>
               (if 1 \<le> y \<and> 1 \<le> m \<and> m \<le> 12 \<and> 1 \<le> d \<and> d \<le> days_in_month y m
                then Some (int y, int m, int d) else None)
           | _ \<Rightarrow> None)
      | _ \<Rightarrow> None)"

text \<open>
  What networkx returns on the graphs of the examples. On a graph without edges: every
  betweenness is 0, there is no cycle, the longest path is the first node alone and every
  node is a component of its own.
\<close>

definition networkx_edgeless :: "(int, real) networkx" where
  "networkx_edgeless =
     \<lparr>betweenness_centrality = (\<lambda>G. map (\<lambda>n. (n, 0)) (nodes G)),
      directed_cycle_search = (\<lambda>G. []),
      dag_longest_path = (\<lambda>G. take 1 (nodes G)),
      strongly_connected_components = (\<lambda>G. map (\<lambda>n. [n]) (nodes G))\<rparr>"

text \<open>
  On the graph of the nodes 1, 2, 3 with the edges 1 to 2, 2 to 3 and 3 to 1: each node lies
  on one of the two shortest paths between the other two, so its betweenness is 1/2; the
  graph is one cycle and one component. The source does not ask for the longest path of a
  cyclic graph (networkx would raise); the path given here is never read.
\<close>

definition networkx_cycle3 :: "(int, real) networkx" where
  "networkx_cycle3 =
     \<lparr>betweenness_centrality = (\<lambda>G. [(1, 1 / 2), (2, 1 / 2), (3, 1 / 2)]),
      directed_cycle_search = (\<lambda>G. [[1, 2, 3]]),
      dag_longest_path = (\<lambda>G. [1, 2, 3]),
      strongly_connected_components = (\<lambda>G. [[1, 2, 3]])\<rparr>"

text \<open>
  On the graph of the nodes 1, 2, 3 with the edges 1 to 2 and 2 to 3: node 2 lies on the one
  shortest path from 1 to 3, which is one of the two ordered pairs of other nodes, so its
  betweenness is 1/2, and that of 1 and of 3 is 0; there is no cycle; the longest path runs
  through all three nodes; every node is a component of its own.
\<close>

definition networkx_chain3 :: "(int, real) networkx" where
  "networkx_chain3 =
     \<lparr>betweenness_centrality = (\<lambda>G. [(1, 0), (2, 1 / 2), (3, 0)]),
      directed_cycle_search = (\<lambda>G. []),
      dag_longest_path = (\<lambda>G. [1, 2, 3]),
      strongly_connected_components = (\<lambda>G. [[3], [2], [1]])\<rparr>"

text \<open>
  On the graph of the single node 1 with the edge from 1 to 1: betweenness 0, no cycle in
  the graph of the remaining edges (it is empty), one component. The graph is cyclic, and
  the path given here is never read.
\<close>

definition networkx_loop1 :: "(int, real) networkx" where
  "networkx_loop1 =
     \<lparr>betweenness_centrality = (\<lambda>G. [(1, 0)]),
      directed_cycle_search = (\<lambda>G. []),
      dag_longest_path = (\<lambda>G. [1]),
      strongly_connected_components = (\<lambda>G. [[1]])\<rparr>"

section \<open>Properties of graph construction\<close>

subsection \<open>Dicts\<close>

lemma first_seen_snoc: "first_seen (xs @ [x]) = first_seen xs @ (if x \<in> set xs then [] else [x])"
  by (simp add: first_seen_def)

lemma set_first_seen: "set (first_seen xs) = set xs"
  by (simp add: first_seen_def)

lemma distinct_first_seen: "distinct (first_seen xs)"
  by (simp add: first_seen_def)

lemma first_seen_Nil: "first_seen [] = []"
  by (simp add: first_seen_def)

lemma keys_map_default:
  "map fst (AList.map_default k v f xs) = map fst xs @ (if k \<in> fst ` set xs then [] else [k])"
  by (induction xs) auto

lemma keys_map_entry: "map fst (AList.map_entry k f xs) = map fst xs"
  by (induction xs) auto

subsection \<open>Graph operations\<close>

lemma nodes_add_node: "nodes (add_node G n a) = nodes G @ (if n \<in> set (nodes G) then [] else [n])"
  by (simp add: nodes_def add_node_def keys_map_default)

lemma nodes_add_edge:
  "nodes (add_edge G u v a) =
     nodes G @ (if u \<in> set (nodes G) then [] else [u])
             @ (if v \<in> set (nodes G) \<or> v = u then [] else [v])"
  by (auto simp add: nodes_def add_edge_def Let_def keys_map_default keys_map_entry dom_map_default)

lemma succ_add_node: "succ (add_node G n a) w = succ G w"
  by (auto simp add: succ_def add_node_def map_of_map_default split: option.splits)

lemma succ_add_edge:
  "succ (add_edge G u v a) w =
     (if w = u then AList.map_default v (dict_update [] a) (\<lambda>d. dict_update d a) (succ G u)
      else succ G w)"
  by (auto simp add: succ_def add_edge_def Let_def map_of_map_default map_of_map_entry split: option.splits)

lemma node_attrs_add_node:
  "node_attrs (add_node G n a) w =
     (if w = n then Some (dict_update (case node_attrs G n of None \<Rightarrow> [] | Some d \<Rightarrow> d) a)
      else node_attrs G w)"
  by (auto simp add: node_attrs_def add_node_def map_of_map_default split: option.splits)

lemma node_attrs_add_edge:
  "node_attrs (add_edge G u v a) w =
     (if w \<in> set (nodes G) then node_attrs G w else if w = u \<or> w = v then Some [] else None)"
  by (auto simp add: node_attrs_def nodes_def add_edge_def Let_def map_of_map_default
      map_of_map_entry map_of_eq_None_iff split: option.splits dest!: map_of_SomeD intro: rev_image_eqI)

lemma node_attrs_None_iff: "node_attrs G w = None \<longleftrightarrow> w \<notin> set (nodes G)"
  by (simp add: node_attrs_def nodes_def map_of_eq_None_iff)

lemma dict_update_event_attrs:
  "dict_update [] (event_attrs ev) = event_attrs ev"
  "dict_update (event_attrs ev') (event_attrs ev) = event_attrs ev"
  by (simp_all add: dict_update_def event_attrs_def)

lemma dict_update_edge_row_attrs:
  "dict_update [] (edge_row_attrs e) = edge_row_attrs e"
  "dict_update (edge_row_attrs e') (edge_row_attrs e) = edge_row_attrs e"
  by (simp_all add: dict_update_def edge_row_attrs_def)

subsection \<open>The node loop\<close>

lemma fold_add_event_snoc:
  "fold add_event (evs @ [ev]) G = add_event ev (fold add_event evs G)"
  by simp

lemma nodes_events: "nodes (fold add_event evs DiGraph) = first_seen (map ID evs)"
proof (induction evs rule: rev_induct)
  case Nil
  show ?case by (simp add: DiGraph_def nodes_def first_seen_Nil)
next
  case (snoc ev evs)
  then show ?case
    by (simp add: add_event_def nodes_add_node first_seen_snoc set_first_seen)
qed

lemma succ_events: "succ (fold add_event evs DiGraph) w = []"
proof (induction evs rule: rev_induct)
  case Nil
  show ?case by (simp add: DiGraph_def succ_def)
next
  case (snoc ev evs)
  then show ?case by (simp add: add_event_def succ_add_node)
qed

lemma node_attrs_events:
  "node_attrs (fold add_event evs DiGraph) n =
     (if n \<in> ID ` set evs then Some (event_attrs (last (filter (\<lambda>e. ID e = n) evs))) else None)"
proof (induction evs rule: rev_induct)
  case Nil
  show ?case by (simp add: DiGraph_def node_attrs_def)
next
  case (snoc ev evs)
  then show ?case
    by (auto simp add: add_event_def node_attrs_add_node dict_update_event_attrs)
qed

subsection \<open>The edge loop\<close>

lemma create_graph_snoc:
  "create_graph evs (eds @ [e]) = add_edge_row e (create_graph evs eds)"
  by (simp add: create_graph_def)

lemma create_graph_Nil: "create_graph evs [] = fold add_event evs DiGraph"
  by (simp add: create_graph_def)

lemma added_pairs_snoc:
  "added_pairs (eds @ [e]) = added_pairs eds @ (case endpoints e of None \<Rightarrow> [] | Some p \<Rightarrow> [p])"
  by (simp add: added_pairs_def List.map_filter_def split: option.splits)

lemma added_pairs_Nil: "added_pairs [] = []"
  by (simp add: added_pairs_def List.map_filter_def)

lemma nodes_create_graph:
  "nodes (create_graph evs eds) = first_seen (map ID evs @ pair_ends (added_pairs eds))"
proof (induction eds rule: rev_induct)
  case Nil
  show ?case by (simp add: create_graph_Nil nodes_events added_pairs_Nil pair_ends_def)
next
  case (snoc e eds)
  show ?case
  proof (cases "endpoints e")
    case None
    then show ?thesis
      using snoc by (simp add: create_graph_snoc add_edge_row_def added_pairs_snoc)
  next
    case (Some p)
    obtain u v where p: "p = (u, v)" by (cases p)
    have "map ID evs @ pair_ends (added_pairs (eds @ [e]))
        = ((map ID evs @ pair_ends (added_pairs eds)) @ [u]) @ [v]"
      by (simp add: added_pairs_snoc Some p pair_ends_def)
    then show ?thesis
      using snoc
      by (auto simp add: create_graph_snoc add_edge_row_def Some p nodes_add_edge
          first_seen_snoc set_first_seen simp del: append_assoc)
  qed
qed

lemma keys_succ_create_graph:
  "map fst (succ (create_graph evs eds) u) =
     first_seen (map snd (filter (\<lambda>p. fst p = u) (added_pairs eds)))"
proof (induction eds rule: rev_induct)
  case Nil
  show ?case by (simp add: create_graph_Nil succ_events added_pairs_Nil first_seen_Nil)
next
  case (snoc e eds)
  show ?case
  proof (cases "endpoints e")
    case None
    then show ?thesis
      using snoc by (simp add: create_graph_snoc add_edge_row_def added_pairs_snoc)
  next
    case (Some p)
    obtain a b where p: "p = (a, b)" by (cases p)
    let ?G = "create_graph evs eds"
    have mem: "b \<in> fst ` set (succ ?G a) \<longleftrightarrow> (a, b) \<in> set (added_pairs eds)" if "u = a"
    proof -
      have "set (map fst (succ ?G a)) = snd ` {p \<in> set (added_pairs eds). fst p = a}"
        using snoc that by (simp add: set_first_seen)
      then show ?thesis by force
    qed
    show ?thesis
    proof (cases "u = a")
      case True
      then show ?thesis
        using snoc mem
        by (simp add: create_graph_snoc add_edge_row_def Some p succ_add_edge added_pairs_snoc
            keys_map_default first_seen_snoc image_iff)
    next
      case False
      then show ?thesis
        using snoc
        by (simp add: create_graph_snoc add_edge_row_def Some p succ_add_edge added_pairs_snoc)
    qed
  qed
qed

lemma edge_attrs_create_graph:
  "edge_attrs (create_graph evs eds) u v =
     (if (u, v) \<in> set (added_pairs eds)
      then Some (edge_row_attrs (last (filter (\<lambda>e. endpoints e = Some (u, v)) eds)))
      else None)"
proof (induction eds rule: rev_induct)
  case Nil
  show ?case by (simp add: edge_attrs_def create_graph_Nil succ_events added_pairs_Nil)
next
  case (snoc e eds)
  show ?case
  proof (cases "endpoints e")
    case None
    then show ?thesis
      using snoc by (simp add: edge_attrs_def create_graph_snoc add_edge_row_def added_pairs_snoc)
  next
    case (Some p)
    obtain a b where p: "p = (a, b)" by (cases p)
    show ?thesis
      using snoc
      by (auto simp add: edge_attrs_def create_graph_snoc add_edge_row_def Some p succ_add_edge
          added_pairs_snoc map_of_map_default dict_update_edge_row_attrs
          split: option.splits if_splits)
  qed
qed

lemma succ_outside: "u \<notin> set (nodes G) \<Longrightarrow> succ G u = []"
  by (simp add: succ_def nodes_def map_of_eq_None_iff [THEN iffD2])

lemma edges_by_nodes:
  "distinct (nodes G) \<Longrightarrow>
     edges G = concat (map (\<lambda>u. map (\<lambda>(v, d). (u, v)) (succ G u)) (nodes G))"
proof (induction G)
  case Nil
  show ?case by (simp add: edges_def nodes_def)
next
  case (Cons x G)
  obtain u a s where x: "x = (u, a, s)" by (cases x)
  have tail: "succ (x # G) w = succ G w" if "w \<in> set (nodes G)" for w
    using Cons.prems that by (auto simp add: x succ_def nodes_def)
  have head: "succ (x # G) u = s"
    by (simp add: x succ_def)
  have e: "edges (x # G) = map (\<lambda>(v, d). (u, v)) s @ edges G"
    by (simp add: x edges_def)
  have n: "nodes (x # G) = u # nodes G"
    by (simp add: x nodes_def)
  have IH: "edges G = concat (map (\<lambda>u. map (\<lambda>(v, d). (u, v)) (succ G u)) (nodes G))"
    using Cons by (simp add: nodes_def)
  have eq: "map (\<lambda>w. map (\<lambda>(v, d). (w, v)) (succ (x # G) w)) (nodes G)
      = map (\<lambda>w. map (\<lambda>(v, d). (w, v)) (succ G w)) (nodes G)"
    by (rule map_cong [OF refl]) (simp add: tail)
  show ?case
    unfolding e n by (simp add: head IH eq)
qed

lemma set_edges:
  assumes "distinct (nodes G)"
  shows "set (edges G) = {(u, v). v \<in> fst ` set (succ G u)}"
proof -
  have "set (edges G) = {(u, v). u \<in> set (nodes G) \<and> v \<in> fst ` set (succ G u)}"
    by (subst edges_by_nodes [OF assms]) force
  also have "\<dots> = {(u, v). v \<in> fst ` set (succ G u)}"
    using succ_outside [of _ G] by force
  finally show ?thesis .
qed

lemma distinct_edges_aux:
  "distinct ns \<Longrightarrow> (\<And>u. distinct (map fst (succ G u))) \<Longrightarrow>
     distinct (concat (map (\<lambda>u. map (\<lambda>(v, d). (u, v)) (succ G u)) ns))"
proof (induction ns)
  case Nil
  show ?case by simp
next
  case (Cons n ns)
  have "distinct (map (\<lambda>a. (n, fst a)) (succ G n))"
    using Cons.prems(2) [of n] by (auto simp add: distinct_map inj_on_def)
  then show ?case
    using Cons by (auto simp add: case_prod_beta)
qed

lemma set_edges_create_graph:
  "set (edges (create_graph evs eds)) = set (added_pairs eds)"
proof -
  have "distinct (nodes (create_graph evs eds))"
    by (simp add: nodes_create_graph distinct_first_seen)
  then have "set (edges (create_graph evs eds))
      = {(u, v). v \<in> set (map fst (succ (create_graph evs eds) u))}"
    by (simp add: set_edges)
  also have "\<dots> = set (added_pairs eds)"
    by (force simp add: keys_succ_create_graph set_first_seen)
  finally show ?thesis .
qed

lemma distinct_edges_create_graph: "distinct (edges (create_graph evs eds))"
proof -
  have d: "distinct (nodes (create_graph evs eds))"
    by (simp add: nodes_create_graph distinct_first_seen)
  show ?thesis
    by (subst edges_by_nodes [OF d], rule distinct_edges_aux [OF d])
      (simp add: keys_succ_create_graph distinct_first_seen)
qed

lemma pair_ends_append: "pair_ends (ps @ qs) = pair_ends ps @ pair_ends qs"
  by (simp add: pair_ends_def)

lemma pair_ends_single: "pair_ends [(a, b)] = [a, b]"
  by (simp add: pair_ends_def)

lemma number_of_edges_create_graph:
  "number_of_edges (create_graph evs eds) = card (set (added_pairs eds))"
proof -
  have "number_of_edges (create_graph evs eds) = card (set (edges (create_graph evs eds)))"
    by (simp add: number_of_edges_def distinct_card distinct_edges_create_graph)
  then show ?thesis
    by (simp only: set_edges_create_graph)
qed

lemma node_attrs_create_graph:
  "node_attrs (create_graph evs eds) n =
     (if n \<in> ID ` set evs then Some (event_attrs (last (filter (\<lambda>e. ID e = n) evs)))
      else if n \<in> set (pair_ends (added_pairs eds)) then Some [] else None)"
proof (induction eds rule: rev_induct)
  case Nil
  show ?case by (simp add: create_graph_Nil node_attrs_events added_pairs_Nil pair_ends_def)
next
  case (snoc e eds)
  show ?case
  proof (cases "endpoints e")
    case None
    then show ?thesis
      using snoc by (simp add: create_graph_snoc add_edge_row_def added_pairs_snoc)
  next
    case (Some p)
    obtain a b where p: "p = (a, b)" by (cases p)
    show ?thesis
      using snoc
      by (auto simp add: create_graph_snoc add_edge_row_def Some p node_attrs_add_edge
          nodes_create_graph set_first_seen added_pairs_snoc pair_ends_append pair_ends_single)
  qed
qed

lemma count_list_distinct: "distinct xs \<Longrightarrow> count_list xs x = (if x \<in> set xs then 1 else 0)"
  by (induction xs) auto

lemma create_graph_skips:
  "create_graph evs (filter (\<lambda>e. endpoints e \<noteq> None) eds) = create_graph evs eds"
proof (induction eds rule: rev_induct)
  case Nil
  show ?case by simp
next
  case (snoc e eds)
  then show ?case
    by (cases "endpoints e") (simp_all add: create_graph_snoc add_edge_row_def)
qed

section \<open>Properties of the analysis\<close>

subsection \<open>Sorting\<close>

lemma sorted_reverse_descending:
  "sorted_wrt (\<lambda>x y. key y \<le> key x) (sorted_reverse key xs)"
proof -
  have "sorted (map key (sort_key key (rev xs)))"
    by (rule sorted_sort_key)
  then have "sorted_wrt (\<lambda>x y. key x \<le> key y) (sort_key key (rev xs))"
    by (simp add: sorted_map)
  then show ?thesis
    by (simp add: sorted_reverse_def sorted_wrt_rev)
qed

lemma mset_sorted_reverse: "mset (sorted_reverse key xs) = mset xs"
  by (simp add: sorted_reverse_def)

lemma length_sorted_reverse: "length (sorted_reverse key xs) = length xs"
  by (simp add: sorted_reverse_def)

lemma sorted_reverse_stable:
  "filter (\<lambda>x. key x = k) (sorted_reverse key xs) = filter (\<lambda>x. key x = k) xs"
  by (simp add: sorted_reverse_def rev_filter [symmetric] sort_key_stable)

lemma filter_take_prefix: "\<exists>n. filter P (take m xs) = take n (filter P xs)"
proof (induction xs arbitrary: m)
  case Nil
  show ?case by simp
next
  case (Cons x xs)
  show ?case
  proof (cases m)
    case 0
    then show ?thesis by (intro exI [of _ 0]) simp
  next
    case (Suc m')
    obtain n where n: "filter P (take m' xs) = take n (filter P xs)"
      using Cons.IH by blast
    show ?thesis
    proof (cases "P x")
      case True
      then show ?thesis using n Suc by (intro exI [of _ "Suc n"]) simp
    next
      case False
      then show ?thesis using n Suc by (intro exI [of _ n]) simp
    qed
  qed
qed

lemma top_central_properties:
  "sorted_wrt (\<lambda>x y. snd y \<le> snd x) (top_central betweenness) \<and>
   length (top_central betweenness) = min 5 (length betweenness) \<and>
   mset (top_central betweenness) \<subseteq># mset betweenness \<and>
   (\<forall>x \<in> set (top_central betweenness).
      \<forall>y \<in># mset betweenness - mset (top_central betweenness). snd y \<le> snd x) \<and>
   (\<exists>n. filter (\<lambda>x. snd x = k) (top_central betweenness)
          = take n (filter (\<lambda>x. snd x = k) betweenness))"
proof -
  let ?S = "sorted_reverse snd betweenness"
  have S: "sorted_wrt (\<lambda>x y. snd y \<le> snd x) ?S"
    by (rule sorted_reverse_descending)
  have split: "take 5 ?S @ drop 5 ?S = ?S"
    by simp
  have a: "sorted_wrt (\<lambda>x y. snd y \<le> snd x) (top_central betweenness)"
    using S by (simp add: top_central_def sorted_wrt_take)
  have b: "length (top_central betweenness) = min 5 (length betweenness)"
    by (simp add: top_central_def length_sorted_reverse min.commute)
  have "mset (take 5 ?S) + mset (drop 5 ?S) = mset (take 5 ?S @ drop 5 ?S)"
    by (simp only: mset_append)
  also have "\<dots> = mset betweenness"
    by (simp only: split mset_sorted_reverse)
  finally have m: "mset betweenness = mset (top_central betweenness) + mset (drop 5 ?S)"
    by (simp only: top_central_def)
  have c: "mset (top_central betweenness) \<subseteq># mset betweenness"
    by (simp add: m)
  have d: "snd y \<le> snd x"
    if "x \<in> set (top_central betweenness)"
      and "y \<in># mset betweenness - mset (top_central betweenness)" for x y
  proof -
    have "y \<in> set (drop 5 ?S)"
      using that(2) by (simp add: m)
    moreover have "sorted_wrt (\<lambda>x y. snd y \<le> snd x) (take 5 ?S @ drop 5 ?S)"
      using S by simp
    ultimately show ?thesis
      using that(1) unfolding sorted_wrt_append top_central_def by blast
  qed
  have e: "\<exists>n. filter (\<lambda>x. snd x = k) (top_central betweenness)
          = take n (filter (\<lambda>x. snd x = k) betweenness)"
    using filter_take_prefix [of "\<lambda>x. snd x = k" 5 ?S]
    by (simp add: top_central_def sorted_reverse_stable)
  show ?thesis
    using a b c d e by blast
qed

subsection \<open>The structural report\<close>

lemma no_chain_line_central:
  "filter is_chain_line (map (\<lambda>(node_id, centrality). Central_Event node_id centrality) xs) = []"
  by (induction xs) auto

lemma no_chain_line_loops:
  "filter is_chain_line (map (\<lambda>(i, cycle). Loop i cycle) xs) = []"
  by (induction xs) auto

lemma chain_lines_longest_chain_lines:
  "filter is_chain_line (longest_chain_lines p) = longest_chain_lines p"
  by (cases p) auto

lemma self_loop_general:
  assumes "v \<in> fst ` set (succ G v)"
  shows "out_degree G v \<noteq> 0 \<and> v \<notin> set (dead_ends G) \<and> v \<in> set (self_loops G)"
proof -
  have ne: "succ G v \<noteq> []"
    using assms by auto
  then have "v \<in> set (nodes G)"
    using succ_outside [of v G] by blast
  then show ?thesis
    using assms ne by (simp add: out_degree_def dead_ends_def self_loops_def)
qed

lemma map_filter_append:
  "List.map_filter f (xs @ ys) = List.map_filter f xs @ List.map_filter f ys"
  by (simp add: List.map_filter_def)

lemma central_events_central:
  "central_events (map (\<lambda>(node_id, centrality). Central_Event node_id centrality) xs) = xs"
  by (induction xs) (auto simp add: central_events_def List.map_filter_simps)

lemma central_events_loops:
  "central_events (map (\<lambda>(i, cycle). Loop i cycle) xs) = []"
  by (induction xs) (auto simp add: central_events_def List.map_filter_simps)

lemma central_events_chain: "central_events (longest_chain_lines p) = []"
  by (cases p) (auto simp add: central_events_def List.map_filter_simps)

lemma central_events_append: "central_events (xs @ ys) = central_events xs @ central_events ys"
  by (simp add: central_events_def map_filter_append)

lemma central_events_Cons:
  "central_events (l # ls) = (case central_event l of None \<Rightarrow> [] | Some x \<Rightarrow> [x]) @ central_events ls"
  by (simp add: central_events_def List.map_filter_simps split: option.splits)

lemma central_events_Nil: "central_events [] = []"
  by (simp add: central_events_def List.map_filter_simps)

lemma central_events_report:
  "central_events (fst (analyze_graph_structure nx G)) = top_central (betweenness_centrality nx G)"
  by (simp add: analyze_graph_structure_def Let_def central_events_append central_events_Cons
      central_events_Nil central_events_central central_events_loops central_events_chain)

lemma report_edges_count:
  "Edges_Count (number_of_edges G) \<in> set (fst (analyze_graph_structure nx G))"
  by (simp add: analyze_graph_structure_def Let_def)

lemma report_counts:
  "Dead_Ends_Count (length (dead_ends G)) \<in> set (fst (analyze_graph_structure nx G))"
  "Loops_Count (length (simple_cycles nx G)) \<in> set (fst (analyze_graph_structure nx G))"
  by (simp_all add: analyze_graph_structure_def Let_def)

subsection \<open>The temporal analysis\<close>







section \<open>The claims about graph construction\<close>

text \<open>
  Claim C1, as the code has it. \<^verbatim>\<open>create_graph\<close> never compares an edge row with the
  event identifiers: every row whose \<^verbatim>\<open>Source\<close> and \<^verbatim>\<open>Target\<close> are both present is
  handed to \<^verbatim>\<open>add_edge\<close>, which creates the end points it does not find. The graph has
  exactly one node per distinct identifier among the event identifiers and the end points of
  those rows, and exactly one edge per distinct ordered pair of those rows; nothing else.
\<close>

theorem create_graph_nodes_and_edges:
  "distinct (nodes (create_graph events_df edges_df)) \<and>
   set (nodes (create_graph events_df edges_df))
     = ID ` set events_df \<union> set (pair_ends (added_pairs edges_df)) \<and>
   number_of_nodes (create_graph events_df edges_df)
     = card (ID ` set events_df \<union> set (pair_ends (added_pairs edges_df))) \<and>
   distinct (edges (create_graph events_df edges_df)) \<and>
   set (edges (create_graph events_df edges_df)) = set (added_pairs edges_df) \<and>
   number_of_edges (create_graph events_df edges_df) = card (set (added_pairs edges_df))"
proof -
  let ?G = "create_graph events_df edges_df"
  have d: "distinct (nodes ?G)"
    by (simp add: nodes_create_graph distinct_first_seen)
  have s: "set (nodes ?G) = ID ` set events_df \<union> set (pair_ends (added_pairs edges_df))"
    by (simp add: nodes_create_graph set_first_seen)
  have "number_of_nodes ?G = length (nodes ?G)"
    by (simp add: number_of_nodes_def nodes_def)
  also have "\<dots> = card (set (nodes ?G))"
    using d by (simp add: distinct_card)
  finally have n: "number_of_nodes ?G
      = card (ID ` set events_df \<union> set (pair_ends (added_pairs edges_df)))"
    by (simp only: s)
  have m: "number_of_edges ?G = card (set (added_pairs edges_df))"
    by (rule number_of_edges_create_graph)
  show ?thesis
    using d s n m distinct_edges_create_graph set_edges_create_graph by blast
qed

text \<open>
  Claim C1 as stated fails: one event, identifier 1, and one edge row from 1 to the unknown
  identifier 2. The graph has two nodes for one distinct identifier, and the edge, whose
  target is no event, is present.
\<close>

theorem create_graph_unknown_endpoint_adds_node:
  "nodes (create_graph [event_row 1 ''a''] [edge_row (Some 1) (Some 2) ''causal'']) = [1, 2] \<and>
   number_of_nodes (create_graph [event_row 1 ''a''] [edge_row (Some 1) (Some 2) ''causal'']) = 2 \<and>
   length (remdups (map ID [event_row 1 ''a''])) = 1 \<and>
   2 \<notin> ID ` set [event_row 1 ''a''] \<and>
   edges (create_graph [event_row 1 ''a''] [edge_row (Some 1) (Some 2) ''causal'']) = [(1, 2)] \<and>
   number_of_edges (create_graph [event_row 1 ''a''] [edge_row (Some 1) (Some 2) ''causal'']) = 1"
  by code_simp

text \<open>
  Claim C2, as the code has it. Graph construction always returns a graph. A node whose
  identifier occurs in the events carries the attributes of the last event row with that
  identifier, whatever rows came before; a node known only from an edge row has no
  attributes; and every node is in the graph once.
\<close>

theorem create_graph_duplicate_identifier:
  "node_attrs (create_graph events_df edges_df) n =
     (if n \<in> ID ` set events_df
      then Some (event_attrs (last (filter (\<lambda>e. ID e = n) events_df)))
      else if n \<in> set (pair_ends (added_pairs edges_df)) then Some [] else None) \<and>
   count_list (nodes (create_graph events_df edges_df)) n =
     (if n \<in> ID ` set events_df \<union> set (pair_ends (added_pairs edges_df)) then 1 else 0)"
  by (simp add: node_attrs_create_graph count_list_distinct nodes_create_graph
      distinct_first_seen set_first_seen)

text \<open>
  Claim C2 as stated fails: two event rows with identifier 1. \<^verbatim>\<open>create_graph\<close> raises
  nothing and returns a graph with the single node 1, which carries the attributes of the
  second row; the first row's description is gone. The run ends without an exception, and
  its report counts two events per world and year and one node.
\<close>

theorem create_graph_duplicate_overwrites:
  "create_graph [event_row 1 ''first'', event_row 1 ''second''] []
     = [(1, event_attrs (event_row 1 ''second''), [])] \<and>
   main strptime networkx_edgeless [event_row 1 ''first'', event_row 1 ''second''] []
     = ([Title, Rule, Worlds_Header, World_Count (Str ''Jonas'') 2,
         Temporal_Header, Year_Count 1986 2, Characters_Header,
         Character_Count ''Jonas'' 2, Character_Count ''Martha'' 2,
         Important_Header, Trigger_Count 0, Death_Count 0, Structure_Header,
         Nodes_Count 1, Edges_Count 0, Central_Header, Central_Event 1 0,
         Dead_Ends_Count 1, Loops_Count 0, Chain_Length 1, Chain_Path [1],
         Components_Count 1, Largest_Component 1], None)"
  by code_simp

text \<open>
  Claim C3, as the code has it. The rows skipped by the guard and the rows handed to
  \<^verbatim>\<open>add_edge\<close> add up to all rows; the built graph has one edge per distinct ordered pair
  of the rows handed over, so at most as many edges as such rows; and the skipped rows leave
  no trace: the graph is the one built from the other rows alone, and so is the whole
  report, since \<^verbatim>\<open>main\<close> hands only the graph and the events on.
\<close>

theorem create_graph_edge_rows_accounting:
  "length (filter (\<lambda>e. endpoints e = None) edges_df) + length (added_pairs edges_df)
     = length edges_df \<and>
   number_of_edges (create_graph events_df edges_df) = length (remdups (added_pairs edges_df)) \<and>
   number_of_edges (create_graph events_df edges_df) \<le> length (added_pairs edges_df) \<and>
   create_graph events_df (filter (\<lambda>e. endpoints e \<noteq> None) edges_df)
     = create_graph events_df edges_df \<and>
   main parse nx events_df (filter (\<lambda>e. endpoints e \<noteq> None) edges_df)
     = main parse nx events_df edges_df"
proof -
  let ?G = "create_graph events_df edges_df"
  have a: "length (filter (\<lambda>e. endpoints e = None) edges_df) + length (added_pairs edges_df)
      = length edges_df"
    using sum_length_filter_compl [of "\<lambda>e. endpoints e = None" edges_df]
    by (simp add: added_pairs_def List.map_filter_def)
  have b: "number_of_edges ?G = length (remdups (added_pairs edges_df))"
    by (simp add: number_of_edges_create_graph length_remdups_card_conv)
  have c: "number_of_edges ?G \<le> length (added_pairs edges_df)"
    unfolding b by (rule length_remdups_leq)
  have d: "main parse nx events_df (filter (\<lambda>e. endpoints e \<noteq> None) edges_df)
      = main parse nx events_df edges_df"
    by (simp only: main_def create_graph_skips)
  show ?thesis
    using a b c d create_graph_skips by blast
qed

text \<open>
  Claim C3 as stated fails. Two rows for the pair (1, 2) between existing events: both are
  handed to \<^verbatim>\<open>add_edge\<close>, none is dropped, and the graph has one edge for two rows. And
  a row with a missing source gives the very graph, and the very report, that no row
  gives: nothing tells that a row was skipped.
\<close>

theorem create_graph_no_dropped_tally:
  "added_pairs [edge_row (Some 1) (Some 2) ''causal'', edge_row (Some 1) (Some 2) ''presence'']
     = [(1, 2), (1, 2)] \<and>
   number_of_edges (create_graph [event_row 1 ''a'', event_row 2 ''b'']
     [edge_row (Some 1) (Some 2) ''causal'', edge_row (Some 1) (Some 2) ''presence'']) = 1 \<and>
   length [edge_row (Some 1) (Some 2) ''causal'', edge_row (Some 1) (Some 2) ''presence''] = 2 \<and>
   create_graph [event_row 1 ''a'', event_row 2 ''b''] [edge_row None (Some 2) ''causal'']
     = create_graph [event_row 1 ''a'', event_row 2 ''b''] [] \<and>
   main strptime networkx_edgeless [event_row 1 ''a'', event_row 2 ''b'']
       [edge_row None (Some 2) ''causal'']
     = main strptime networkx_edgeless [event_row 1 ''a'', event_row 2 ''b''] []"
  by code_simp

text \<open>
  Claim C4, as the code has it. For every ordered pair, the graph has one edge if some row
  with both end points present has that pair and none otherwise; the edge carries the type
  and description of the last such row. The edge count written to the report is the number
  of distinct ordered pairs of those rows.
\<close>

theorem create_graph_one_edge_per_pair:
  "edge_attrs (create_graph events_df edges_df) u v =
     (if (u, v) \<in> set (added_pairs edges_df)
      then Some (edge_row_attrs (last (filter (\<lambda>e. endpoints e = Some (u, v)) edges_df)))
      else None) \<and>
   count_list (edges (create_graph events_df edges_df)) (u, v) =
     (if (u, v) \<in> set (added_pairs edges_df) then 1 else 0) \<and>
   Edges_Count (card (set (added_pairs edges_df)))
     \<in> set (fst (analyze_graph_structure nx (create_graph events_df edges_df)))"
proof -
  let ?G = "create_graph events_df edges_df"
  have "Edges_Count (number_of_edges ?G) \<in> set (fst (analyze_graph_structure nx ?G))"
    by (rule report_edges_count)
  then have "Edges_Count (card (set (added_pairs edges_df)))
      \<in> set (fst (analyze_graph_structure nx ?G))"
    by (simp only: number_of_edges_create_graph)
  then show ?thesis
    by (simp add: edge_attrs_create_graph count_list_distinct distinct_edges_create_graph
        set_edges_create_graph)
qed

text \<open>
  Claim C4 as stated fails: two rows for the pair (1, 2), of types \<^verbatim>\<open>causal\<close> and
  \<^verbatim>\<open>presence\<close>. Node 1 has the single successor 2, the edge has the second row's type,
  and the edge count is 1.
\<close>

theorem create_graph_parallel_rows_collapse:
  "succ (create_graph [event_row 1 ''a'', event_row 2 ''b'']
     [edge_row (Some 1) (Some 2) ''causal'', edge_row (Some 1) (Some 2) ''presence'']) 1
     = [(2, [(''edge_type'', Str ''presence''), (''description'', NaN)])] \<and>
   number_of_edges (create_graph [event_row 1 ''a'', event_row 2 ''b'']
     [edge_row (Some 1) (Some 2) ''causal'', edge_row (Some 1) (Some 2) ''presence'']) = 1"
  by code_simp

section \<open>The claims about the analysis\<close>

text \<open>
  Claim C5, as the code has it. The longest path is computed only when the graph is acyclic.
  When the graph is acyclic and the path found is not empty, the report holds the length of
  the path in nodes and then its node sequence. In every other case, so for every cyclic
  graph, the report holds no line about the longest chain at all; no line says that the
  metric does not apply.
\<close>

theorem longest_chain_written_iff_acyclic_nonempty:
  "filter is_chain_line (fst (analyze_graph_structure nx G)) =
     (if is_directed_acyclic_graph G \<and> dag_longest_path nx G \<noteq> []
      then [Chain_Length (length (dag_longest_path nx G)), Chain_Path (dag_longest_path nx G)]
      else [])"
  by (simp add: analyze_graph_structure_def Let_def no_chain_line_central no_chain_line_loops
      chain_lines_longest_chain_lines longest_path_def)

text \<open>
  Claim C5 as stated fails: the events 1, 2, 3 with the edges 1 to 2, 2 to 3 and 3 to 1. The
  graph is cyclic and the lines written for it end with the loops and the components;
  nothing is written about the longest chain, whatever path the library would give.
\<close>

theorem cyclic_graph_no_chain_line:
  "is_directed_acyclic_graph
     (create_graph [event_row 1 ''a'', event_row 2 ''b'', event_row 3 ''c'']
        [edge_row (Some 1) (Some 2) ''causal'', edge_row (Some 2) (Some 3) ''causal'',
         edge_row (Some 3) (Some 1) ''causal'']) = False \<and>
   analyze_graph_structure networkx_cycle3
     (create_graph [event_row 1 ''a'', event_row 2 ''b'', event_row 3 ''c'']
        [edge_row (Some 1) (Some 2) ''causal'', edge_row (Some 2) (Some 3) ''causal'',
         edge_row (Some 3) (Some 1) ''causal''])
     = ([Structure_Header, Nodes_Count 3, Edges_Count 3, Central_Header,
         Central_Event 1 (1 / 2), Central_Event 2 (1 / 2), Central_Event 3 (1 / 2),
         Dead_Ends_Count 0, Loops_Count 1, Loops_Header, Loop 1 [1, 2, 3],
         Components_Count 1, Largest_Component 3], None)"
  by code_simp

text \<open>
  Claim C6, as the code has it. The nodes listed in the report are five items (all of them,
  if fewer) of the betweenness dict, in descending order of centrality, and no item left out
  has a larger value than a listed one. Items of equal value keep the order they have in
  the dict, which networkx fills in the order of the nodes of the graph; the identifier
  plays no part.
\<close>

theorem top_central_descending_stable:
  "central_events (fst (analyze_graph_structure nx G))
     = top_central (betweenness_centrality nx G) \<and>
   sorted_wrt (\<lambda>x y. snd y \<le> snd x) (central_events (fst (analyze_graph_structure nx G))) \<and>
   length (central_events (fst (analyze_graph_structure nx G)))
     = min 5 (length (betweenness_centrality nx G)) \<and>
   mset (central_events (fst (analyze_graph_structure nx G)))
     \<subseteq># mset (betweenness_centrality nx G) \<and>
   (\<forall>x \<in> set (central_events (fst (analyze_graph_structure nx G))).
      \<forall>y \<in># mset (betweenness_centrality nx G)
              - mset (central_events (fst (analyze_graph_structure nx G))). snd y \<le> snd x) \<and>
   (\<exists>n. filter (\<lambda>x. snd x = k) (central_events (fst (analyze_graph_structure nx G)))
          = take n (filter (\<lambda>x. snd x = k) (betweenness_centrality nx G)))"
  unfolding central_events_report
  using top_central_properties [of "betweenness_centrality nx G" k] by blast

text \<open>
  Claim C6 as stated fails: the events 2 and 1, in this order, and no edge. Both nodes have
  betweenness 0, and the report lists node 2 before node 1.
\<close>

theorem top_central_tie_in_dict_order:
  "betweenness_centrality networkx_edgeless (create_graph [event_row 2 ''b'', event_row 1 ''a''] [])
     = [(2, 0), (1, 0)] \<and>
   central_events (fst (analyze_graph_structure networkx_edgeless
      (create_graph [event_row 2 ''b'', event_row 1 ''a''] []))) = [(2, 0), (1, 0)]"
  by code_simp

text \<open>
  Claim C6, the theorem at the events 1, 2, 3 with the edges 1 to 2 and 2 to 3: node 2 first,
  then the nodes 1 and 3 of equal value in the order of the dict.
\<close>

theorem top_central_descending_stable_witness:
  "central_events (fst (analyze_graph_structure networkx_chain3
      (create_graph [event_row 1 ''a'', event_row 2 ''b'', event_row 3 ''c'']
         [edge_row (Some 1) (Some 2) ''causal'', edge_row (Some 2) (Some 3) ''causal''])))
     = [(2, 1 / 2), (1, 0), (3, 0)] \<and>
   sorted_wrt (\<lambda>x y. snd y \<le> snd x)
     (central_events (fst (analyze_graph_structure networkx_chain3
        (create_graph [event_row 1 ''a'', event_row 2 ''b'', event_row 3 ''c'']
           [edge_row (Some 1) (Some 2) ''causal'', edge_row (Some 2) (Some 3) ''causal'']))))"
proof -
  have "central_events (fst (analyze_graph_structure networkx_chain3
      (create_graph [event_row 1 ''a'', event_row 2 ''b'', event_row 3 ''c'']
         [edge_row (Some 1) (Some 2) ''causal'', edge_row (Some 2) (Some 3) ''causal''])))
     = [(2, 1 / 2), (1, 0), (3, 0)]"
    by code_simp
  then show ?thesis
    using top_central_descending_stable [of networkx_chain3
        "create_graph [event_row 1 ''a'', event_row 2 ''b'', event_row 3 ''c'']
           [edge_row (Some 1) (Some 2) ''causal'', edge_row (Some 2) (Some 3) ''causal'']" 0]
    by simp
qed







text \<open>
  Claim C10. For every node \<open>v\<close> with an edge row from \<open>v\<close> to \<open>v\<close>: its out-degree is
  not zero, it is not among the dead ends, the cycle \<open>[v]\<close> is among the cycles
  enumerated, once for the node, and the counts of dead ends and of loops written to the
  report are the lengths of these lists. Nothing is assumed about the other edges.
\<close>

theorem self_loop_counted:
  assumes "(v, v) \<in> set (added_pairs edges_df)"
  shows "out_degree (create_graph events_df edges_df) v \<noteq> 0 \<and>
         v \<notin> set (dead_ends (create_graph events_df edges_df)) \<and>
         [v] \<in> set (simple_cycles nx (create_graph events_df edges_df)) \<and>
         length (simple_cycles nx (create_graph events_df edges_df))
           = length (self_loops (create_graph events_df edges_df))
             + length (directed_cycle_search nx
                 (without_self_loops (create_graph events_df edges_df))) \<and>
         count_list (self_loops (create_graph events_df edges_df)) v = 1 \<and>
         Dead_Ends_Count (length (dead_ends (create_graph events_df edges_df)))
           \<in> set (fst (analyze_graph_structure nx (create_graph events_df edges_df))) \<and>
         Loops_Count (length (simple_cycles nx (create_graph events_df edges_df)))
           \<in> set (fst (analyze_graph_structure nx (create_graph events_df edges_df)))"
proof -
  let ?G = "create_graph events_df edges_df"
  have "v \<in> set (map fst (succ ?G v))"
    using assms by (force simp add: keys_succ_create_graph set_first_seen)
  then have loop: "v \<in> fst ` set (succ ?G v)"
    by simp
  have d: "distinct (self_loops ?G)"
    by (simp add: self_loops_def nodes_create_graph distinct_first_seen)
  have c: "count_list (self_loops ?G) v = 1"
    using self_loop_general [OF loop] d by (simp add: count_list_distinct)
  have s: "[v] \<in> set (simple_cycles nx ?G)"
    using self_loop_general [OF loop] by (simp add: simple_cycles_def)
  have l: "length (simple_cycles nx ?G)
      = length (self_loops ?G) + length (directed_cycle_search nx (without_self_loops ?G))"
    by (simp add: simple_cycles_def)
  show ?thesis
    using self_loop_general [OF loop] c s l report_counts [where G = ?G and nx = nx] by blast
qed

text \<open>Claim C10, the theorem at one event with an edge row to itself.\<close>

theorem self_loop_counted_witness:
  "(1, 1) \<in> set (added_pairs [edge_row (Some 1) (Some 1) ''causal'']) \<and>
   dead_ends (create_graph [event_row 1 ''a''] [edge_row (Some 1) (Some 1) ''causal'']) = [] \<and>
   simple_cycles networkx_loop1
     (create_graph [event_row 1 ''a''] [edge_row (Some 1) (Some 1) ''causal'']) = [[1]] \<and>
   edges (create_graph [event_row 1 ''a''] [edge_row (Some 1) (Some 1) ''causal'']) = [(1, 1)]"
proof -
  have h: "(1, 1) \<in> set (added_pairs [edge_row (Some 1) (Some (1 :: int)) ''causal''])"
    by code_simp
  have "dead_ends (create_graph [event_row 1 ''a''] [edge_row (Some 1) (Some 1) ''causal'']) = []"
    by code_simp
  moreover have "simple_cycles networkx_loop1
     (create_graph [event_row 1 ''a''] [edge_row (Some 1) (Some 1) ''causal'']) = [[1]]"
    by code_simp
  moreover have "edges (create_graph [event_row 1 ''a''] [edge_row (Some 1) (Some 1) ''causal''])
      = [(1, 1)]"
    by code_simp
  ultimately show ?thesis
    using h self_loop_counted [OF h, of "[event_row 1 ''a'']" networkx_loop1] by simp
qed

end
